theory Spec2Isabelle
  imports Main
begin

section \<open>Python values, errors and HTTP messages\<close>

text \<open>
  The values that \<^verbatim>\<open>request.json()\<close> produces and that \<^verbatim>\<open>json.dumps\<close> consumes: Python's
  \<^verbatim>\<open>None\<close>, \<^verbatim>\<open>bool\<close>, \<^verbatim>\<open>int\<close>, \<^verbatim>\<open>str\<close>, \<^verbatim>\<open>list\<close> and \<^verbatim>\<open>dict\<close> with string keys. A dict is an
  association list in insertion order (an \<^verbatim>\<open>OrderedDict\<close> for \<^verbatim>\<open>render\<close>); subscripting reads
  the first binding of a key. Floating point numbers are left out.
\<close>

datatype pyval =
    NoneV
  | BoolV bool
  | IntV int
  | StrV string
  | ListV "pyval list"
  | DictV "(string \<times> pyval) list"

text \<open>
  The exceptions the code can raise. \<^verbatim>\<open>HTTPMethodNotAllowed(method, allowed_methods)\<close> is
  aiohttp's 405 response exception, \<^verbatim>\<open>HttpBadRequest(message)\<close> its 400 protocol error; the
  others are Python's own.
\<close>

datatype error =
    HTTPMethodNotAllowed string "string list"
  | HttpBadRequest string
  | JSONDecodeError
  | KeyError string
  | TypeError
  | AttributeError
  | NameError string

fun status_code :: "error \<Rightarrow> nat option" where
  "status_code (HTTPMethodNotAllowed m allowed) = Some 405"
| "status_code (HttpBadRequest message) = Some 400"
| "status_code e = None"

fun allowed_methods :: "error \<Rightarrow> string list" where
  "allowed_methods (HTTPMethodNotAllowed m allowed) = allowed"
| "allowed_methods e = []"

text \<open>
  A request as \<^verbatim>\<open>dispatch\<close> sees it: the HTTP method, the path parameters the router
  matched (\<^verbatim>\<open>request.match_info\<close>, strings), and what \<^verbatim>\<open>await request.json()\<close> yields:
  \<open>None\<close> stands for a body that is not JSON, where the call raises.
\<close>

record request =
  method' :: string
  match_info :: "(string \<times> string) list"
  json :: "pyval option"

text \<open>
  A response body is kept as the value that was serialised, tagged with the way the code
  serialised it: \<^verbatim>\<open>json.dumps(v)\<close> (a \<^verbatim>\<open>str\<close>), or \<^verbatim>\<open>RestResource.encode\<close>, that is
  \<^verbatim>\<open>json.dumps(v, indent=4).encode('utf-8')\<close>. \<open>NoBody\<close> is \<^verbatim>\<open>Response(status=...)\<close> with no
  body argument.
\<close>

datatype payload =
    NoBody
  | Dumps pyval
  | DumpsIndent4Utf8 pyval

record response =
  status :: nat
  body :: payload
  content_type :: "string option"

section \<open>models.py: the Note entity\<close>

text \<open>
  \<^verbatim>\<open>id\<close> is \<open>None\<close> until the row is flushed. The five other attributes hold whatever
  Python value was assigned: neither \<^verbatim>\<open>__init__\<close> nor the handlers validate them. The
  conversions a storage engine applies to a value that is not of the column's declared
  type are not modelled: a stored row reads back the values that were written.
\<close>

record Note =
  id' :: "int option"
  title :: pyval
  description :: pyval
  created_at :: pyval
  created_by :: pyval
  priority :: pyval

definition Note_init :: "pyval \<Rightarrow> pyval \<Rightarrow> pyval \<Rightarrow> pyval \<Rightarrow> pyval \<Rightarrow> Note" where
  "Note_init t d ca cb p =
     \<lparr>id' = None, title = t, description = d, created_at = ca, created_by = cb, priority = p\<rparr>"

definition id_value :: "Note \<Rightarrow> pyval" where
  "id_value n = (case id' n of None \<Rightarrow> NoneV | Some k \<Rightarrow> IntV k)"

text \<open>
  \<^verbatim>\<open>getattr(instance, name)\<close> on a Note, for the six mapped columns. Any other name is
  taken to raise \<^verbatim>\<open>AttributeError\<close> (the methods and class attributes of the ORM base
  class are not columns and are not modelled).
\<close>

definition getattr :: "Note \<Rightarrow> string \<Rightarrow> error + pyval" where
  "getattr n name =
     (if name = ''id'' then Inr (id_value n)
      else if name = ''title'' then Inr (title n)
      else if name = ''description'' then Inr (description n)
      else if name = ''created_at'' then Inr (created_at n)
      else if name = ''created_by'' then Inr (created_by n)
      else if name = ''priority'' then Inr (priority n)
      else Inl AttributeError)"

text \<open>
  \<^verbatim>\<open>to_json\<close>: the dict of the six attributes named in \<^verbatim>\<open>to_serialize\<close>, in that order.
\<close>

definition to_serialize :: "string list" where
  "to_serialize =
     [''id'', ''title'', ''description'', ''created_at'', ''created_by'', ''priority'']"

fun collect :: "('a \<Rightarrow> error + 'b) \<Rightarrow> 'a list \<Rightarrow> error + 'b list" where
  "collect f [] = Inr []"
| "collect f (x # xs) =
     (case f x of
        Inl e \<Rightarrow> Inl e
      | Inr y \<Rightarrow> (case collect f xs of Inl e \<Rightarrow> Inl e | Inr ys \<Rightarrow> Inr (y # ys)))"

definition attr_item :: "Note \<Rightarrow> string \<Rightarrow> error + string \<times> pyval" where
  "attr_item n name = (case getattr n name of Inl e \<Rightarrow> Inl e | Inr v \<Rightarrow> Inr (name, v))"

definition to_json :: "Note \<Rightarrow> error + (string \<times> pyval) list" where
  "to_json self = collect (attr_item self) to_serialize"

text \<open>
  \<^verbatim>\<open>from_json(cls, data)\<close> is \<^verbatim>\<open>cls(**data)\<close>: the keys of \<^verbatim>\<open>data\<close> become keyword arguments
  of \<^verbatim>\<open>__init__(self, title, description, created_at, created_by, priority)\<close>. Python raises
  \<^verbatim>\<open>TypeError\<close> for a keyword the signature does not have and for a parameter left
  without a value.
\<close>

definition init_parameters :: "string list" where
  "init_parameters = [''title'', ''description'', ''created_at'', ''created_by'', ''priority'']"

definition from_json :: "(string \<times> pyval) list \<Rightarrow> error + Note" where
  "from_json data =
     (if list_ex (\<lambda>k. k \<notin> set init_parameters) (map fst data) then Inl TypeError
      else
        (case (map_of data ''title'', map_of data ''description'', map_of data ''created_at'',
               map_of data ''created_by'', map_of data ''priority'') of
           (Some t, Some d, Some ca, Some cb, Some p) \<Rightarrow> Inr (Note_init t d ca cb p)
         | _ \<Rightarrow> Inl TypeError))"

section \<open>models.py: the session and the table \<^verbatim>\<open>notes\<close>\<close>

text \<open>
  The module-level \<^verbatim>\<open>session\<close> is shared by all requests. Its state is the committed rows
  of the table, in rowid order, and the persistent objects whose attributes were assigned
  but not yet flushed (\<open>dirty\<close>): the session is created with \<^verbatim>\<open>autoflush=False\<close>, so such
  an object stays as it is until the next \<^verbatim>\<open>commit\<close>, also across requests when a handler
  raises between an assignment and its commit.
\<close>

record session =
  table :: "Note list"
  dirty :: "Note list"

definition find_id :: "int \<Rightarrow> Note list \<Rightarrow> Note option" where
  "find_id k ns = find (\<lambda>n. id' n = Some k) ns"

text \<open>
  The object the session hands out for a row: the one already held with pending changes,
  if there is one with this primary key, else the row as stored.
\<close>

definition identity :: "session \<Rightarrow> Note \<Rightarrow> Note" where
  "identity s row =
     (case id' row of
        None \<Rightarrow> row
      | Some k \<Rightarrow> (case find_id k (dirty s) of None \<Rightarrow> row | Some obj \<Rightarrow> obj))"

text \<open>\<^verbatim>\<open>session.query(Note)\<close>, iterated, and \<^verbatim>\<open>session.query(Note).all()\<close>.\<close>

definition query :: "session \<Rightarrow> Note list" where
  "query s = map (identity s) (table s)"

text \<open>
  Path parameters are strings. \<^verbatim>\<open>Note.id == instance_id\<close> compares the integer primary key
  with such a string in the database; it holds when the string is the decimal numeral of
  the key (an optional minus sign, then digits). Other spellings a database may accept as
  a number are not modelled: they match no row.
\<close>

definition digit :: "char \<Rightarrow> nat option" where
  "digit c =
     (let n = (of_char c :: nat) in if 48 \<le> n \<and> n \<le> 57 then Some (n - 48) else None)"

fun digits :: "nat \<Rightarrow> string \<Rightarrow> nat option" where
  "digits acc [] = Some acc"
| "digits acc (c # cs) =
     (case digit c of None \<Rightarrow> None | Some d \<Rightarrow> digits (10 * acc + d) cs)"

definition decimal :: "string \<Rightarrow> int option" where
  "decimal str =
     (case str of
        [] \<Rightarrow> None
      | c # cs \<Rightarrow>
          if c = CHR ''-'' then
            (if cs = [] then None else map_option (\<lambda>n. - int n) (digits 0 cs))
          else map_option int (digits 0 str))"

text \<open>\<^verbatim>\<open>session.query(Note).filter(Note.id == instance_id).first()\<close>\<close>

definition first :: "session \<Rightarrow> string \<Rightarrow> Note option" where
  "first s instance_id =
     (case decimal instance_id of
        None \<Rightarrow> None
      | Some k \<Rightarrow> map_option (identity s) (find_id k (table s)))"

text \<open>
  Assigning an attribute of a persistent object: the session keeps the modified object,
  in place of an earlier modified state of the same row.
\<close>

definition modified :: "Note \<Rightarrow> session \<Rightarrow> session" where
  "modified obj s = s\<lparr>dirty := obj # filter (\<lambda>d. id' d \<noteq> id' obj) (dirty s)\<rparr>"

text \<open>
  \<^verbatim>\<open>session.commit()\<close> flushes every pending change to its row and leaves nothing pending.
  (\<^verbatim>\<open>session.add\<close> of an object that is already persistent changes nothing.)
\<close>

definition commit :: "session \<Rightarrow> session" where
  "commit s = \<lparr>table = query s, dirty = []\<rparr>"

text \<open>
  The primary key of a new row: the table has an integer primary key and no explicit
  sequence, so the key is one more than the largest key in use, and 1 in an empty table.
\<close>

fun next_id :: "int list \<Rightarrow> int" where
  "next_id [] = 1"
| "next_id (k # ks) = fold max ks k + 1"

definition keys :: "Note list \<Rightarrow> int list" where
  "keys ns = List.map_filter id' ns"

text \<open>
  \<^verbatim>\<open>session.add(note); session.commit()\<close> for a new object: the flush writes the pending
  changes and inserts the object as a row with a generated key.
\<close>

definition add_commit :: "Note \<Rightarrow> session \<Rightarrow> session" where
  "add_commit obj s =
     \<lparr>table = query s @ [obj\<lparr>id' := Some (next_id (keys (table s)))\<rparr>], dirty = []\<rparr>"

text \<open>
  \<^verbatim>\<open>session.delete(note); session.commit()\<close>: the flush writes the pending changes and
  deletes the row with the object's primary key.
\<close>

definition delete_commit :: "Note \<Rightarrow> session \<Rightarrow> session" where
  "delete_commit obj s = \<lparr>table = filter (\<lambda>r. id' r \<noteq> id' obj) (query s), dirty = []\<rparr>"

section \<open>aiohttp_rest.py: RestResource\<close>

text \<open>
  The resource holds the URL name, the collection dict (only its values are read), the
  tuple of property names and the name of the id field. The factory (the class \<^verbatim>\<open>Note\<close>)
  is never used by the code and is left out.
\<close>

record resource =
  notes' :: string
  collection :: "Note list"
  properties :: "string list"
  id_field :: string

text \<open>\<^verbatim>\<open>person_resource\<close> of aio-app.py; the dict \<^verbatim>\<open>notes = {}\<close> is never written to.\<close>

definition person_resource :: resource where
  "person_resource =
     \<lparr>notes' = ''notes'', collection = [],
      properties = [''title'', ''description'', ''created_at'', ''created_by'', ''priority''],
      id_field = ''title''\<rparr>"

definition render :: "resource \<Rightarrow> Note \<Rightarrow> error + pyval" where
  "render self instance =
     (case collect (attr_item instance) (properties self) of
        Inl e \<Rightarrow> Inl e
      | Inr items \<Rightarrow> Inr (DictV items))"

definition encode :: "pyval \<Rightarrow> payload" where
  "encode data = DumpsIndent4Utf8 data"

definition render_and_encode :: "resource \<Rightarrow> Note \<Rightarrow> error + payload" where
  "render_and_encode self instance =
     (case render self instance of Inl e \<Rightarrow> Inl e | Inr data \<Rightarrow> Inr (encode data))"

section \<open>aiohttp_rest.py: the handlers\<close>

type_synonym outcome = "(error + response) \<times> session"

text \<open>The dict literal of the list comprehensions in \<^verbatim>\<open>CollectionEndpoint\<close>.\<close>

definition note_dict :: "Note \<Rightarrow> pyval" where
  "note_dict n =
     DictV [(''id'', id_value n), (''title'', title n), (''description'', description n),
            (''created_at'', created_at n), (''created_by'', created_by n),
            (''priority'', priority n)]"

definition notes_body :: "session \<Rightarrow> payload" where
  "notes_body s = encode (DictV [(''notes'', ListV (map note_dict (query s)))])"

definition json_response :: "nat \<Rightarrow> payload \<Rightarrow> response" where
  "json_response st b = \<lparr>status = st, body = b, content_type = Some ''application/json''\<rparr>"

text \<open>
  \<^verbatim>\<open>CollectionEndpoint.get\<close>: the loop renders the values of the resource's collection
  (its result is encoded and dropped); the body lists the rows of the table.
\<close>

definition CollectionEndpoint_get :: "resource \<Rightarrow> session \<Rightarrow> outcome" where
  "CollectionEndpoint_get resource s =
     (case collect (render resource) (collection resource) of
        Inl e \<Rightarrow> (Inl e, s)
      | Inr data \<Rightarrow> (Inr (json_response 200 (notes_body s)), s))"

text \<open>\<^verbatim>\<open>data[key]\<close> for a string key: only a dict can be subscripted by a string.\<close>

definition getitem :: "pyval \<Rightarrow> string \<Rightarrow> error + pyval" where
  "getitem data key =
     (case data of
        DictV items \<Rightarrow> (case map_of items key of None \<Rightarrow> Inl (KeyError key) | Some v \<Rightarrow> Inr v)
      | _ \<Rightarrow> Inl TypeError)"

text \<open>
  The constructor call of \<^verbatim>\<open>CollectionEndpoint.post\<close>: its keyword arguments are evaluated
  from left to right, so the first missing key is the one reported.
\<close>

definition new_note :: "pyval \<Rightarrow> error + Note" where
  "new_note data =
     (case getitem data ''title'' of Inl e \<Rightarrow> Inl e | Inr t \<Rightarrow>
     (case getitem data ''description'' of Inl e \<Rightarrow> Inl e | Inr d \<Rightarrow>
     (case getitem data ''created_at'' of Inl e \<Rightarrow> Inl e | Inr ca \<Rightarrow>
     (case getitem data ''created_by'' of Inl e \<Rightarrow> Inl e | Inr cb \<Rightarrow>
     (case getitem data ''priority'' of Inl e \<Rightarrow> Inl e | Inr p \<Rightarrow>
        Inr (Note_init t d ca cb p))))))"

definition CollectionEndpoint_post :: "resource \<Rightarrow> request \<Rightarrow> session \<Rightarrow> outcome" where
  "CollectionEndpoint_post resource request s =
     (case json request of
        None \<Rightarrow> (Inl JSONDecodeError, s)
      | Some data \<Rightarrow>
          (case new_note data of
             Inl e \<Rightarrow> (Inl e, s)
           | Inr note \<Rightarrow>
               (let s' = add_commit note s
                in (Inr (json_response 201 (notes_body s')), s'))))"

definition InstanceEndpoint_get :: "resource \<Rightarrow> string \<Rightarrow> session \<Rightarrow> outcome" where
  "InstanceEndpoint_get resource instance_id s =
     (case first s instance_id of
        None \<Rightarrow> (Inr (json_response 404 (Dumps (DictV [(''not found'', IntV 404)]))), s)
      | Some instance \<Rightarrow>
          (case render_and_encode resource instance of
             Inl e \<Rightarrow> (Inl e, s)
           | Inr data \<Rightarrow> (Inr (json_response 200 data), s)))"

text \<open>
  One statement \<^verbatim>\<open>note.attr = data[key]\<close> of \<^verbatim>\<open>InstanceEndpoint.put\<close>. Python evaluates the
  right-hand side first; the assignment then fails on \<^verbatim>\<open>None\<close>, and on a Note it leaves the
  object modified in the session.
\<close>

definition assign ::
  "Note option \<Rightarrow> (pyval \<Rightarrow> Note \<Rightarrow> Note) \<Rightarrow> pyval \<Rightarrow> string \<Rightarrow> session \<Rightarrow>
     (error + Note) \<times> session" where
  "assign note setter data key s =
     (case getitem data key of
        Inl e \<Rightarrow> (Inl e, s)
      | Inr v \<Rightarrow>
          (case note of
             None \<Rightarrow> (Inl AttributeError, s)
           | Some n \<Rightarrow> (let n' = setter v n in (Inr n', modified n' s))))"

definition InstanceEndpoint_put :: "resource \<Rightarrow> request \<Rightarrow> string \<Rightarrow> session \<Rightarrow> outcome" where
  "InstanceEndpoint_put resource request instance_id s =
     (case json request of
        None \<Rightarrow> (Inl JSONDecodeError, s)
      | Some data \<Rightarrow>
          (case assign (first s instance_id) (\<lambda>v n. n\<lparr>title := v\<rparr>) data ''title'' s of
             (Inl e, s1) \<Rightarrow> (Inl e, s1)
           | (Inr n1, s1) \<Rightarrow>
          (case assign (Some n1) (\<lambda>v n. n\<lparr>description := v\<rparr>) data ''description'' s1 of
             (Inl e, s2) \<Rightarrow> (Inl e, s2)
           | (Inr n2, s2) \<Rightarrow>
          (case assign (Some n2) (\<lambda>v n. n\<lparr>created_at := v\<rparr>) data ''created_at'' s2 of
             (Inl e, s3) \<Rightarrow> (Inl e, s3)
           | (Inr n3, s3) \<Rightarrow>
          (case assign (Some n3) (\<lambda>v n. n\<lparr>created_by := v\<rparr>) data ''created_by'' s3 of
             (Inl e, s4) \<Rightarrow> (Inl e, s4)
           | (Inr n4, s4) \<Rightarrow>
          (case assign (Some n4) (\<lambda>v n. n\<lparr>priority := v\<rparr>) data ''priority'' s4 of
             (Inl e, s5) \<Rightarrow> (Inl e, s5)
           | (Inr n5, s5) \<Rightarrow>
               (let s6 = commit s5
                in (case render_and_encode resource n5 of
                      Inl e \<Rightarrow> (Inl e, s6)
                    | Inr data' \<Rightarrow> (Inr (json_response 201 data'), s6)))))))))"

text \<open>
  \<^verbatim>\<open>InstanceEndpoint.delete\<close>: the module defines and imports no \<^verbatim>\<open>abort\<close>, so the branch
  for a missing note raises \<^verbatim>\<open>NameError\<close> when it looks the name up.
\<close>

definition InstanceEndpoint_delete :: "resource \<Rightarrow> string \<Rightarrow> session \<Rightarrow> outcome" where
  "InstanceEndpoint_delete resource instance_id s =
     (case first s instance_id of
        None \<Rightarrow> (Inl (NameError ''abort''), s)
      | Some note \<Rightarrow>
          (Inr \<lparr>status = 204, body = NoBody, content_type = None\<rparr>, delete_commit note s))"

section \<open>aiohttp_rest.py: RestEndpoint\<close>

definition DEFAULT_METHODS :: "string list" where
  "DEFAULT_METHODS = [''GET'', ''POST'', ''PUT'', ''DELETE'']"

text \<open>
  \<^verbatim>\<open>str.upper\<close> and \<^verbatim>\<open>str.lower\<close> on the ASCII letters, which is what method names consist of;
  every other character is left as it is.
\<close>

definition upper_char :: "char \<Rightarrow> char" where
  "upper_char c =
     (let n = (of_char c :: nat) in if 97 \<le> n \<and> n \<le> 122 then char_of (n - 32) else c)"

definition lower_char :: "char \<Rightarrow> char" where
  "lower_char c =
     (let n = (of_char c :: nat) in if 65 \<le> n \<and> n \<le> 90 then char_of (n + 32) else c)"

definition upper :: "string \<Rightarrow> string" where
  "upper str = map upper_char str"

definition lower :: "string \<Rightarrow> string" where
  "lower str = map lower_char str"

text \<open>
  The two endpoint classes, each holding its resource, and their bound handler methods.
  \<^verbatim>\<open>getattr(self, name, None)\<close> finds \<^verbatim>\<open>get\<close> and \<^verbatim>\<open>post\<close> on a \<^verbatim>\<open>CollectionEndpoint\<close>, and \<^verbatim>\<open>get\<close>,
  \<^verbatim>\<open>put\<close> and \<^verbatim>\<open>delete\<close> on an \<^verbatim>\<open>InstanceEndpoint\<close>.
\<close>

datatype endpoint =
    CollectionEndpoint resource
  | InstanceEndpoint resource

datatype bound_method =
    Collection_get resource
  | Collection_post resource
  | Instance_get resource
  | Instance_put resource
  | Instance_delete resource

fun getattr_method :: "endpoint \<Rightarrow> string \<Rightarrow> bound_method option" where
  "getattr_method (CollectionEndpoint r) name =
     (if name = ''get'' then Some (Collection_get r)
      else if name = ''post'' then Some (Collection_post r)
      else None)"
| "getattr_method (InstanceEndpoint r) name =
     (if name = ''get'' then Some (Instance_get r)
      else if name = ''put'' then Some (Instance_put r)
      else if name = ''delete'' then Some (Instance_delete r)
      else None)"

definition register_method ::
  "string \<Rightarrow> bound_method \<Rightarrow> (string \<rightharpoonup> bound_method) \<Rightarrow> (string \<rightharpoonup> bound_method)" where
  "register_method method_name m ms = ms(upper method_name \<mapsto> m)"

text \<open>\<^verbatim>\<open>RestEndpoint.__init__\<close>: the dict \<^verbatim>\<open>self.methods\<close> after the loop over \<^verbatim>\<open>DEFAULT_METHODS\<close>.\<close>

definition methods :: "endpoint \<Rightarrow> (string \<rightharpoonup> bound_method)" where
  "methods self =
     fold (\<lambda>method_name ms.
             case getattr_method self (lower method_name) of
               None \<Rightarrow> ms
             | Some m \<Rightarrow> register_method method_name m ms)
          DEFAULT_METHODS Map.empty"

text \<open>
  \<^verbatim>\<open>inspect.signature(method).parameters.keys()\<close> of a bound method: its parameters
  without \<^verbatim>\<open>self\<close>.
\<close>

fun parameters :: "bound_method \<Rightarrow> string list" where
  "parameters (Collection_get r) = []"
| "parameters (Collection_post r) = [''request'']"
| "parameters (Instance_get r) = [''instance_id'']"
| "parameters (Instance_put r) = [''request'', ''instance_id'']"
| "parameters (Instance_delete r) = [''instance_id'']"

text \<open>An argument value is a path parameter or the request object.\<close>

datatype arg =
    PathArg string
  | RequestArg request

text \<open>
  \<^verbatim>\<open>method(**kwargs)\<close>: Python raises \<^verbatim>\<open>TypeError\<close> unless the keywords are exactly the
  parameters. (\<^verbatim>\<open>dispatch\<close> binds \<^verbatim>\<open>request\<close> to the request and every other name to a path
  parameter, so it never takes the last branch of a case below.)
\<close>

fun invoke :: "bound_method \<Rightarrow> (string \<rightharpoonup> arg) \<Rightarrow> session \<Rightarrow> outcome" where
  "invoke (Collection_get r) kw s = CollectionEndpoint_get r s"
| "invoke (Collection_post r) kw s =
     (case kw ''request'' of
        Some (RequestArg request) \<Rightarrow> CollectionEndpoint_post r request s
      | _ \<Rightarrow> (Inl TypeError, s))"
| "invoke (Instance_get r) kw s =
     (case kw ''instance_id'' of
        Some (PathArg instance_id) \<Rightarrow> InstanceEndpoint_get r instance_id s
      | _ \<Rightarrow> (Inl TypeError, s))"
| "invoke (Instance_put r) kw s =
     (case (kw ''request'', kw ''instance_id'') of
        (Some (RequestArg request), Some (PathArg instance_id)) \<Rightarrow>
          InstanceEndpoint_put r request instance_id s
      | _ \<Rightarrow> (Inl TypeError, s))"
| "invoke (Instance_delete r) kw s =
     (case kw ''instance_id'' of
        Some (PathArg instance_id) \<Rightarrow> InstanceEndpoint_delete r instance_id s
      | _ \<Rightarrow> (Inl TypeError, s))"

definition call :: "bound_method \<Rightarrow> (string \<times> arg) list \<Rightarrow> session \<Rightarrow> outcome" where
  "call m kwargs s =
     (if set (map fst kwargs) = set (parameters m) then invoke m (map_of kwargs) s
      else (Inl TypeError, s))"

text \<open>
  \<^verbatim>\<open>available_args\<close>: a copy of \<^verbatim>\<open>request.match_info\<close>, updated with the request under the
  key \<^verbatim>\<open>request\<close>.
\<close>

definition available_args :: "request \<Rightarrow> (string \<rightharpoonup> arg)" where
  "available_args request =
     (map_of (map (\<lambda>(k, v). (k, PathArg v)) (match_info request)))
       (''request'' \<mapsto> RequestArg request)"

definition unsatisfied_args :: "string list \<Rightarrow> (string \<rightharpoonup> arg) \<Rightarrow> string list" where
  "unsatisfied_args wanted available = filter (\<lambda>a. available a = None) wanted"

definition bind_args :: "string list \<Rightarrow> (string \<rightharpoonup> arg) \<Rightarrow> (string \<times> arg) list" where
  "bind_args wanted available =
     List.map_filter (\<lambda>a. map_option (\<lambda>v. (a, v)) (available a)) wanted"

definition dispatch :: "endpoint \<Rightarrow> request \<Rightarrow> session \<Rightarrow> outcome" where
  "dispatch self request s =
     (case methods self (upper (method' request)) of
        None \<Rightarrow> (Inl (HTTPMethodNotAllowed '''' DEFAULT_METHODS), s)
      | Some m \<Rightarrow>
          (let wanted_args = parameters m;
               available = available_args request
           in if unsatisfied_args wanted_args available \<noteq> [] then (Inl (HttpBadRequest ''''), s)
              else call m (bind_args wanted_args available) s))"

text \<open>
  \<^verbatim>\<open>RestResource.register\<close>: the two routes added to the router, each for every method
  (\<^verbatim>\<open>'*'\<close>), with the path pattern and the endpoint whose \<^verbatim>\<open>dispatch\<close> serves it. The router
  itself is aiohttp's: for the second pattern it passes the matched path segment as the
  path parameter \<^verbatim>\<open>instance_id\<close>, for the first it passes no path parameter.
\<close>

definition register :: "resource \<Rightarrow> (string \<times> string \<times> endpoint) list" where
  "register self =
     [(''*'', ''/'' @ notes' self, CollectionEndpoint self),
      (''*'', ''/'' @ notes' self @ ''/{instance_id}'', InstanceEndpoint self)]"

section \<open>Vocabulary of the properties\<close>



text \<open>
  The rendering of five field values: what \<^verbatim>\<open>render\<close> yields for the properties of
  \<^verbatim>\<open>person_resource\<close>.
\<close>

definition rendered :: "pyval \<Rightarrow> pyval \<Rightarrow> pyval \<Rightarrow> pyval \<Rightarrow> pyval \<Rightarrow> pyval" where
  "rendered t d ca cb p =
     DictV [(''title'', t), (''description'', d), (''created_at'', ca), (''created_by'', cb),
            (''priority'', p)]"

text \<open>Concrete data for the examples: two stored notes, the first one overwritten, and two
  payloads.\<close>

definition note_A :: Note where
  "note_A =
     \<lparr>id' = Some 1, title = StrV ''A'', description = StrV ''d'', created_at = StrV ''t'',
      created_by = StrV ''u'', priority = IntV 1\<rparr>"

definition note_B :: Note where
  "note_B =
     \<lparr>id' = Some 2, title = StrV ''B'', description = StrV ''e'', created_at = StrV ''t'',
      created_by = StrV ''v'', priority = IntV 5\<rparr>"


definition stored :: session where
  "stored = \<lparr>table = [note_A, note_B], dirty = []\<rparr>"

definition payload_A :: pyval where
  "payload_A =
     DictV [(''title'', StrV ''A''), (''description'', StrV ''d''), (''created_at'', StrV ''t''),
            (''created_by'', StrV ''u''), (''priority'', IntV 1)]"


text \<open>A request to \<^verbatim>\<open>/notes\<close> and a request to \<^verbatim>\<open>/notes/{instance_id}\<close>.\<close>

definition collection_request :: "string \<Rightarrow> pyval option \<Rightarrow> request" where
  "collection_request m b = \<lparr>method' = m, match_info = [], json = b\<rparr>"

definition instance_request :: "string \<Rightarrow> string \<Rightarrow> pyval option \<Rightarrow> request" where
  "instance_request m instance_id b =
     \<lparr>method' = m, match_info = [(''instance_id'', instance_id)], json = b\<rparr>"

section \<open>Facts about the dispatcher\<close>

lemma lower_DEFAULT: "map lower DEFAULT_METHODS = [''get'', ''post'', ''put'', ''delete'']"
  by code_simp

lemma upper_DEFAULT: "map upper DEFAULT_METHODS = DEFAULT_METHODS"
  by code_simp

lemma methods_Collection:
  "methods (CollectionEndpoint r) = [''GET'' \<mapsto> Collection_get r, ''POST'' \<mapsto> Collection_post r]"
  using lower_DEFAULT upper_DEFAULT
  by (simp add: methods_def DEFAULT_METHODS_def register_method_def)

lemma methods_Instance:
  "methods (InstanceEndpoint r) = [''GET'' \<mapsto> Instance_get r, ''PUT'' \<mapsto> Instance_put r, ''DELETE'' \<mapsto> Instance_delete r]"
  using lower_DEFAULT upper_DEFAULT
  by (simp add: methods_def DEFAULT_METHODS_def register_method_def)

lemma register_person:
  "register person_resource =
     [(''*'', ''/notes'', CollectionEndpoint person_resource),
      (''*'', ''/notes/{instance_id}'', InstanceEndpoint person_resource)]"
  by (simp add: register_def person_resource_def)

lemma available_request: "available_args request ''request'' = Some (RequestArg request)"
  by (simp add: available_args_def)

lemma map_of_PathArg:
  "map_of (map (\<lambda>(k, v). (k, PathArg v)) xs) a = map_option PathArg (map_of xs a)"
  by (induction xs) auto

lemma available_path:
  "a \<noteq> ''request'' \<Longrightarrow> available_args request a = map_option PathArg (map_of (match_info request) a)"
  by (simp add: available_args_def map_of_PathArg)

lemma dom_available:
  "dom (available_args request) = insert ''request'' (fst ` set (match_info request))"
proof -
  have "a \<in> dom (available_args request) \<longleftrightarrow>
        a \<in> insert ''request'' (fst ` set (match_info request))" for a
    by (cases "a = ''request''")
       (simp_all add: available_request available_path domIff map_of_eq_None_iff)
  then show ?thesis by blast
qed

lemma unsatisfied_empty_iff:
  "unsatisfied_args wanted available = [] \<longleftrightarrow> set wanted \<subseteq> dom available"
  by (auto simp: unsatisfied_args_def filter_empty_conv domIff)

lemma bind_args_keys:
  "set wanted \<subseteq> dom available \<Longrightarrow> map fst (bind_args wanted available) = wanted"
  by (induction wanted) (auto simp: bind_args_def domIff)

lemma bind_args_values:
  "set wanted \<subseteq> dom available \<Longrightarrow>
   map (\<lambda>(a, v). Some v) (bind_args wanted available) = map available wanted"
  by (induction wanted) (auto simp: bind_args_def domIff)

lemma map_of_bind_args:
  "map_of (bind_args wanted available) a = (if a \<in> set wanted then available a else None)"
  by (induction wanted) (auto simp: bind_args_def split: option.splits)

text \<open>
  Which parameters the registered handlers declare: on the route without path parameters
  and on the route with \<^verbatim>\<open>instance_id\<close>, every handler of the endpoint is satisfied.
\<close>

lemma parameters_Collection:
  "methods (CollectionEndpoint r) x = Some m \<Longrightarrow> set (parameters m) \<subseteq> {''request''}"
  by (auto simp: methods_Collection split: if_splits)

lemma parameters_Instance:
  "methods (InstanceEndpoint r) x = Some m \<Longrightarrow>
   set (parameters m) \<subseteq> {''request'', ''instance_id''}"
  by (auto simp: methods_Instance split: if_splits)



lemma dispatch_Instance_get:
  "upper (method' request) = ''GET'' \<Longrightarrow> map_of (match_info request) ''instance_id'' = Some i \<Longrightarrow>
   dispatch (InstanceEndpoint r) request s = InstanceEndpoint_get r i s"
  by (simp add: dispatch_def methods_Instance unsatisfied_args_def bind_args_def call_def available_request available_path)



section \<open>Facts about the session\<close>

lemma find_id_Some: "find_id k ns = Some n \<Longrightarrow> id' n = Some k \<and> n \<in> set ns"
  by (auto simp: find_id_def find_Some_iff)

lemma find_id_None: "find_id k ns = None \<longleftrightarrow> Some k \<notin> id' ` set ns"
  by (auto simp: find_id_def find_None_iff image_iff)

lemma identity_id: "id' (identity s row) = id' row"
  by (auto simp: identity_def split: option.splits dest: find_id_Some)



lemma find_id_map:
  "(\<And>x. id' (f x) = id' x) \<Longrightarrow> find_id k (map f ns) = map_option f (find_id k ns)"
  by (induction ns) (auto simp: find_id_def)

lemma find_id_query: "find_id k (query s) = map_option (identity s) (find_id k (table s))"
  by (simp add: query_def find_id_map identity_id)

lemma first_eq: "first s i = (case decimal i of None \<Rightarrow> None | Some k \<Rightarrow> find_id k (query s))"
  by (simp add: first_def find_id_query split: option.splits)

lemma first_Some: "first s i = Some n \<Longrightarrow> \<exists>k. decimal i = Some k \<and> id' n = Some k \<and> n \<in> set (query s)"
  by (auto simp: first_eq split: option.splits dest: find_id_Some)

lemma first_None_iff:
  "first s i = None \<longleftrightarrow> (\<forall>k. decimal i = Some k \<longrightarrow> Some k \<notin> id' ` set (table s))"
  by (auto simp: first_def find_id_None split: option.splits)





section \<open>Facts about the handlers\<close>

lemma collect_attr_error: "collect (attr_item n) ps = Inl e \<Longrightarrow> e = AttributeError"
  by (induction ps arbitrary: e)
     (auto simp: attr_item_def getattr_def split: sum.splits if_splits)


lemma render_person:
  "render person_resource n =
     Inr (DictV [(''title'', title n), (''description'', description n),
                 (''created_at'', created_at n), (''created_by'', created_by n),
                 (''priority'', priority n)])"
  by (simp add: render_def person_resource_def attr_item_def getattr_def)

lemma to_json_eq:
  "to_json n =
     Inr [(''id'', id_value n), (''title'', title n), (''description'', description n),
          (''created_at'', created_at n), (''created_by'', created_by n),
          (''priority'', priority n)]"
  by (simp add: to_json_def to_serialize_def attr_item_def getattr_def)






lemma find_id_filter_other:
  "j \<noteq> k \<Longrightarrow> find_id j (filter (\<lambda>d. id' d \<noteq> Some k) ds) = find_id j ds"
  by (induction ds) (auto simp: find_id_def)

lemma identity_modified:
  "id' m = Some k \<Longrightarrow>
   identity (modified m s) row = (if id' row = Some k then m else identity s row)"
proof (cases "id' row")
  case None
  then show ?thesis by (simp add: identity_def)
next
  case (Some j)
  assume m: "id' m = Some k"
  show ?thesis
  proof (cases "j = k")
    case True
    with Some m show ?thesis by (simp add: identity_def modified_def find_id_def)
  next
    case False
    with Some m show ?thesis
      using find_id_filter_other [of j k "dirty s"]
      by (simp add: identity_def modified_def find_id_def)
  qed
qed

lemma table_modified: "table (modified m s) = table s"
  by (simp add: modified_def)






lemma get_found:
  "first s i = Some n \<Longrightarrow>
   InstanceEndpoint_get person_resource i s =
     (Inr \<lparr>status = 200,
           body = DumpsIndent4Utf8
             (rendered (title n) (description n) (created_at n) (created_by n) (priority n)),
           content_type = Some ''application/json''\<rparr>, s)"
  by (simp add: InstanceEndpoint_get_def json_response_def render_and_encode_def render_person
      encode_def rendered_def)










lemma map_of_Some_iff: "(\<exists>v. map_of xs k = Some v) \<longleftrightarrow> k \<in> fst ` set xs"
  by (metis map_of_eq_None_iff not_None_eq)

lemma from_json_succeeds_iff:
  "(\<exists>m. from_json data = Inr m) \<longleftrightarrow> fst ` set data = set init_parameters"
proof
  assume "\<exists>m. from_json data = Inr m"
  then obtain m where m: "from_json data = Inr m" ..
  then have sub: "fst ` set data \<subseteq> set init_parameters"
    by (auto simp: from_json_def list_ex_iff split: if_splits)
  from m have "\<forall>k \<in> set init_parameters. \<exists>v. map_of data k = Some v"
    by (auto simp: from_json_def init_parameters_def split: if_splits option.splits)
  then have "set init_parameters \<subseteq> fst ` set data"
    by (auto simp: map_of_Some_iff)
  with sub show "fst ` set data = set init_parameters" by blast
next
  assume eq: "fst ` set data = set init_parameters"
  then have "\<forall>k \<in> set init_parameters. \<exists>v. map_of data k = Some v"
    by (simp add: map_of_Some_iff)
  then obtain t d ca cb p where
    "map_of data ''title'' = Some t" "map_of data ''description'' = Some d"
    "map_of data ''created_at'' = Some ca" "map_of data ''created_by'' = Some cb"
    "map_of data ''priority'' = Some p"
    by (auto simp: init_parameters_def)
  with eq show "\<exists>m. from_json data = Inr m"
    by (auto simp: from_json_def list_ex_iff)
qed

text \<open>
  No handler raises one of the two HTTP exceptions of the dispatcher: the errors of the
  handlers are Python's own.
\<close>

lemma render_error: "render r n = Inl e \<Longrightarrow> e = AttributeError"
  by (auto simp: render_def split: sum.splits dest: collect_attr_error)

lemma collect_render_error: "collect (render r) ns = Inl e \<Longrightarrow> e = AttributeError"
  by (induction ns arbitrary: e) (auto split: sum.splits dest: render_error)

lemma getitem_error: "getitem data key = Inl e \<Longrightarrow> e = KeyError key \<or> e = TypeError"
  by (auto simp: getitem_def split: pyval.splits option.splits)

lemma assign_status: "assign note setter data key s = (Inl e, s') \<Longrightarrow> status_code e = None"
  by (auto simp: assign_def Let_def split: sum.splits option.splits dest!: getitem_error)

lemma new_note_status: "new_note data = Inl e \<Longrightarrow> status_code e = None"
  by (auto simp: new_note_def split: sum.splits dest!: getitem_error)

lemma Collection_get_status:
  "CollectionEndpoint_get r s = (Inl e, s') \<Longrightarrow> status_code e = None"
  by (auto simp: CollectionEndpoint_get_def split: sum.splits dest!: collect_render_error)

lemma Collection_post_status:
  "CollectionEndpoint_post r request s = (Inl e, s') \<Longrightarrow> status_code e = None"
  by (auto simp: CollectionEndpoint_post_def Let_def split: option.splits sum.splits
      dest!: new_note_status)

lemma Instance_get_status:
  "InstanceEndpoint_get r i s = (Inl e, s') \<Longrightarrow> status_code e = None"
  by (auto simp: InstanceEndpoint_get_def render_and_encode_def split: option.splits sum.splits
      dest!: render_error)

lemma Instance_put_status:
  "InstanceEndpoint_put r request i s = (Inl e, s') \<Longrightarrow> status_code e = None"
  by (auto simp: InstanceEndpoint_put_def render_and_encode_def Let_def
      split: option.splits sum.splits prod.splits dest!: render_error assign_status)

lemma Instance_delete_status:
  "InstanceEndpoint_delete r i s = (Inl e, s') \<Longrightarrow> status_code e = None"
  by (auto simp: InstanceEndpoint_delete_def split: option.splits)

lemma invoke_status: "invoke m kw s = (Inl e, s') \<Longrightarrow> status_code e = None"
  by (cases m)
     (auto split: option.splits arg.splits
       dest: Collection_get_status Collection_post_status Instance_get_status
         Instance_put_status Instance_delete_status)

lemma call_status: "call m kwargs s = (Inl e, s') \<Longrightarrow> status_code e = None"
  by (auto simp: call_def split: if_splits dest: invoke_status)

section \<open>The shared session\<close>

text \<open>
  A \<^verbatim>\<open>PUT\<close> whose body has a title but no description assigns the title and then raises:
  the note stays modified in the session, a later fetch of the identifier sees the pending
  title, and the next commit of any request writes it.
\<close>

lemma put_partial_body:
  assumes "json request = Some (DictV [(''title'', v)])" and "first s i = Some n"
  shows "InstanceEndpoint_put r request i s =
     (Inl (KeyError ''description''), modified (n\<lparr>title := v\<rparr>) s)"
  using assms
  by (simp add: InstanceEndpoint_put_def assign_def getitem_def Let_def)

lemma first_modified:
  assumes "first s i = Some n" and "id' m = id' n"
  shows "first (modified m s) i = Some m"
proof -
  from assms(1) obtain k where k: "decimal i = Some k" "id' n = Some k"
    by (auto dest: first_Some)
  from assms(1) k obtain row where row: "find_id k (table s) = Some row"
    by (auto simp: first_def)
  then have "id' row = Some k"
    by (auto dest: find_id_Some)
  then show ?thesis
    using k row assms(2) by (simp add: first_def table_modified identity_modified)
qed

section \<open>Concrete evaluations used by the examples\<close>

lemma upper_GET: "upper ''GET'' = ''GET''"
  by code_simp

lemma upper_POST: "upper ''POST'' = ''POST''"
  by code_simp

lemma upper_PUT: "upper ''PUT'' = ''PUT''"
  by code_simp

lemma upper_DELETE: "upper ''DELETE'' = ''DELETE''"
  by code_simp

lemma upper_PATCH: "upper ''PATCH'' = ''PATCH''"
  by code_simp

lemma instance_request_simps:
  "method' (instance_request m i b) = m"
  "match_info (instance_request m i b) = [(''instance_id'', i)]"
  "json (instance_request m i b) = b"
  by (simp_all add: instance_request_def)

lemma collection_request_simps:
  "method' (collection_request m b) = m"
  "match_info (collection_request m b) = []"
  "json (collection_request m b) = b"
  by (simp_all add: collection_request_def)


lemma first_stored_2: "first stored ''2'' = Some note_B"
  by (simp add: first_def decimal_def digit_def stored_def find_id_def note_A_def note_B_def
      identity_def)







section \<open>The claims\<close>

subsection \<open>C1: creating a note, then listing\<close>




subsection \<open>C2: fetching a note by identifier\<close>



subsection \<open>C3: updating a note\<close>



subsection \<open>C4: deleting a note\<close>



subsection \<open>C5: methods without a handler\<close>

text \<open>
  C5. When the endpoint has no handler registered for the method of the request, dispatch
  raises \<^verbatim>\<open>HTTPMethodNotAllowed\<close>, of status 405, whose allowed methods are GET, POST, PUT
  and DELETE, and changes nothing. The collection endpoint has handlers for GET and POST
  only, the instance endpoint for GET, PUT and DELETE only.
\<close>

theorem method_not_allowed:
  "(methods self (upper (method' request)) = None \<longrightarrow>
      dispatch self request s =
        (Inl (HTTPMethodNotAllowed '''' [''GET'', ''POST'', ''PUT'', ''DELETE'']), s)) \<and>
   status_code (HTTPMethodNotAllowed '''' [''GET'', ''POST'', ''PUT'', ''DELETE'']) = Some 405 \<and>
   allowed_methods (HTTPMethodNotAllowed '''' [''GET'', ''POST'', ''PUT'', ''DELETE'']) =
     [''GET'', ''POST'', ''PUT'', ''DELETE''] \<and>
   (methods (CollectionEndpoint r) m = None \<longleftrightarrow> m \<notin> {''GET'', ''POST''}) \<and>
   (methods (InstanceEndpoint r) m = None \<longleftrightarrow> m \<notin> {''GET'', ''PUT'', ''DELETE''})"
  by (simp add: dispatch_def DEFAULT_METHODS_def methods_Collection methods_Instance)

text \<open>
  Examples: PATCH, PUT and DELETE on \<^verbatim>\<open>/notes\<close>; PATCH and POST on \<^verbatim>\<open>/notes/1\<close>.
\<close>

theorem method_not_allowed_witness:
  "dispatch (CollectionEndpoint person_resource) (collection_request ''PATCH'' None) stored =
     (Inl (HTTPMethodNotAllowed '''' [''GET'', ''POST'', ''PUT'', ''DELETE'']), stored) \<and>
   dispatch (CollectionEndpoint person_resource)
       (collection_request ''PUT'' (Some payload_A)) stored =
     (Inl (HTTPMethodNotAllowed '''' [''GET'', ''POST'', ''PUT'', ''DELETE'']), stored) \<and>
   dispatch (CollectionEndpoint person_resource) (collection_request ''DELETE'' None) stored =
     (Inl (HTTPMethodNotAllowed '''' [''GET'', ''POST'', ''PUT'', ''DELETE'']), stored) \<and>
   dispatch (InstanceEndpoint person_resource)
       (instance_request ''PATCH'' ''1'' (Some payload_A)) stored =
     (Inl (HTTPMethodNotAllowed '''' [''GET'', ''POST'', ''PUT'', ''DELETE'']), stored) \<and>
   dispatch (InstanceEndpoint person_resource)
       (instance_request ''POST'' ''1'' (Some payload_A)) stored =
     (Inl (HTTPMethodNotAllowed '''' [''GET'', ''POST'', ''PUT'', ''DELETE'']), stored)"
  using
    method_not_allowed [of "CollectionEndpoint person_resource"
      "collection_request ''PATCH'' None" stored person_resource "''PATCH''"]
    method_not_allowed [of "CollectionEndpoint person_resource"
      "collection_request ''PUT'' (Some payload_A)" stored person_resource "''PUT''"]
    method_not_allowed [of "CollectionEndpoint person_resource"
      "collection_request ''DELETE'' None" stored person_resource "''DELETE''"]
    method_not_allowed [of "InstanceEndpoint person_resource"
      "instance_request ''PATCH'' ''1'' (Some payload_A)" stored person_resource "''PATCH''"]
    method_not_allowed [of "InstanceEndpoint person_resource"
      "instance_request ''POST'' ''1'' (Some payload_A)" stored person_resource "''POST''"]
  by (simp add: collection_request_simps instance_request_simps upper_PATCH upper_PUT
      upper_DELETE upper_POST)

subsection \<open>C6: arguments the handler declares\<close>

text \<open>
  C6 (as amended). When the method has a handler, dispatch raises \<^verbatim>\<open>HttpBadRequest\<close> (code
  400) exactly when some declared parameter of the handler is neither a path parameter
  nor \<^verbatim>\<open>request\<close>, and then changes nothing. Otherwise the handler is called with exactly
  its declared parameters as keywords, each bound to the available argument of that name,
  and its result is the result of dispatch. A path parameter that the handler does not
  declare is ignored: adding path parameters never leads to 400.
\<close>

theorem bad_request:
  assumes "methods self (upper (method' request)) = Some m"
  shows "(fst (dispatch self request s) = Inl (HttpBadRequest '''') \<longleftrightarrow>
            \<not> set (parameters m) \<subseteq> insert ''request'' (fst ` set (match_info request))) \<and>
         (\<not> set (parameters m) \<subseteq> insert ''request'' (fst ` set (match_info request)) \<longrightarrow>
            dispatch self request s = (Inl (HttpBadRequest ''''), s)) \<and>
         (set (parameters m) \<subseteq> insert ''request'' (fst ` set (match_info request)) \<longrightarrow>
            dispatch self request s =
              call m (bind_args (parameters m) (available_args request)) s \<and>
            map fst (bind_args (parameters m) (available_args request)) = parameters m \<and>
            map (\<lambda>(a, v). Some v) (bind_args (parameters m) (available_args request)) =
              map (available_args request) (parameters m) \<and>
            (\<forall>extra. fst (dispatch self (request\<lparr>match_info := match_info request @ extra\<rparr>) s)
               \<noteq> Inl (HttpBadRequest ''''))) \<and>
         status_code (HttpBadRequest '''') = Some 400"
proof -
  let ?ok = "\<lambda>req. set (parameters m) \<subseteq> insert ''request'' (fst ` set (match_info req))"
  have bad: "dispatch self req s = (Inl (HttpBadRequest ''''), s)"
    if "methods self (upper (method' req)) = Some m" and "\<not> ?ok req" for req
    using that by (simp add: dispatch_def unsatisfied_empty_iff dom_available)
  have good: "dispatch self req s = call m (bind_args (parameters m) (available_args req)) s"
    if "methods self (upper (method' req)) = Some m" and "?ok req" for req
    using that by (simp add: dispatch_def unsatisfied_empty_iff dom_available)
  have not400: "fst (dispatch self req s) \<noteq> Inl (HttpBadRequest '''')"
    if h: "methods self (upper (method' req)) = Some m" "?ok req" for req
  proof
    assume "fst (dispatch self req s) = Inl (HttpBadRequest '''')"
    then have "fst (call m (bind_args (parameters m) (available_args req)) s) =
        Inl (HttpBadRequest '''')"
      using good [OF h] by simp
    then have "call m (bind_args (parameters m) (available_args req)) s =
        (Inl (HttpBadRequest ''''),
         snd (call m (bind_args (parameters m) (available_args req)) s))"
      by (simp add: prod_eq_iff)
    then have "status_code (HttpBadRequest '''') = None"
      by (rule call_status)
    then show False by simp
  qed
  have extra: "fst (dispatch self (request\<lparr>match_info := match_info request @ extra\<rparr>) s)
      \<noteq> Inl (HttpBadRequest '''')" if "?ok request" for extra
    using that assms by (intro not400) auto
  show ?thesis
  proof (cases "?ok request")
    case True
    then have "set (parameters m) \<subseteq> dom (available_args request)"
      by (simp add: dom_available)
    then show ?thesis
      using True good [OF assms True] not400 [OF assms True] extra [OF True]
      by (simp add: bind_args_keys bind_args_values)
  next
    case False
    then show ?thesis
      using bad [OF assms False] by simp
  qed
qed

text \<open>
  Example: the instance endpoint reached without a path parameter, and with
  \<^verbatim>\<open>instance_id\<close>.
\<close>

theorem bad_request_witness:
  "dispatch (InstanceEndpoint person_resource) (collection_request ''GET'' None) stored =
     (Inl (HttpBadRequest ''''), stored) \<and>
   dispatch (InstanceEndpoint person_resource) (instance_request ''GET'' ''2'' None) stored =
     call (Instance_get person_resource) [(''instance_id'', PathArg ''2'')] stored"
proof -
  have m: "methods (InstanceEndpoint person_resource) (upper ''GET'') =
      Some (Instance_get person_resource)"
    by (simp add: upper_GET methods_Instance)
  have b: "bind_args [''instance_id''] (available_args (instance_request ''GET'' ''2'' None)) =
      [(''instance_id'', PathArg ''2'')]"
    by (simp add: bind_args_def available_args_def instance_request_def)
  show ?thesis
    using bad_request [of "InstanceEndpoint person_resource" "collection_request ''GET'' None"
        "Instance_get person_resource" stored]
      bad_request [of "InstanceEndpoint person_resource" "instance_request ''GET'' ''2'' None"
        "Instance_get person_resource" stored]
    by (simp add: collection_request_simps instance_request_simps m b)
qed

text \<open>
  The claim as stated, that a path parameter the handler does not request yields 400,
  fails: with the path parameters \<^verbatim>\<open>instance_id\<close> and \<^verbatim>\<open>page\<close>, the handler \<^verbatim>\<open>get(instance_id)\<close>
  is called and answers 200.
\<close>

theorem bad_request_counterexample:
  "dispatch (InstanceEndpoint person_resource)
     \<lparr>method' = ''GET'', match_info = [(''instance_id'', ''2''), (''page'', ''1'')], json = None\<rparr>
     stored =
     (Inr \<lparr>status = 200,
           body = DumpsIndent4Utf8
             (DictV [(''title'', StrV ''B''), (''description'', StrV ''e''),
                     (''created_at'', StrV ''t''), (''created_by'', StrV ''v''),
                     (''priority'', IntV 5)]),
           content_type = Some ''application/json''\<rparr>, stored) \<and>
   parameters (Instance_get person_resource) = [''instance_id''] \<and>
   ''page'' \<notin> set (parameters (Instance_get person_resource))"
  by (simp add: dispatch_Instance_get upper_GET get_found first_stored_2 rendered_def note_B_def)

subsection \<open>C7: rendering a created note\<close>



subsection \<open>C8: \<^verbatim>\<open>to_json\<close> and \<^verbatim>\<open>from_json\<close>\<close>

text \<open>
  C8 (as amended). For every note, \<^verbatim>\<open>to_json\<close> yields a mapping of the six names \<^verbatim>\<open>id\<close>, \<^verbatim>\<open>title\<close>,
  \<^verbatim>\<open>description\<close>, \<^verbatim>\<open>created_at\<close>, \<^verbatim>\<open>created_by\<close> and \<^verbatim>\<open>priority\<close>, and \<^verbatim>\<open>from_json\<close> of that mapping
  raises \<^verbatim>\<open>TypeError\<close>: the constructor has no parameter \<^verbatim>\<open>id\<close>. With the entry \<^verbatim>\<open>id\<close> removed,
  \<^verbatim>\<open>from_json\<close> succeeds and constructs a note with the same five field values and no
  identifier. \<^verbatim>\<open>from_json\<close> succeeds exactly on the mappings whose keys are the five field
  names.
\<close>

theorem from_json_of_to_json:
  "(\<exists>data. to_json n = Inr data \<and>
      map fst data =
        [''id'', ''title'', ''description'', ''created_at'', ''created_by'', ''priority''] \<and>
      from_json data = Inl TypeError \<and>
      from_json (filter (\<lambda>item. fst item \<noteq> ''id'') data) = Inr (n\<lparr>id' := None\<rparr>)) \<and>
   ((\<exists>m. from_json given = Inr m) \<longleftrightarrow>
      fst ` set given =
        {''title'', ''description'', ''created_at'', ''created_by'', ''priority''})"
  using from_json_succeeds_iff [of given]
  by (simp add: to_json_eq from_json_def init_parameters_def Note_init_def)

text \<open>Example: the five fields of the first stored note, in either order.\<close>

theorem from_json_of_to_json_witness:
  "from_json [(''title'', StrV ''A''), (''description'', StrV ''d''),
              (''created_at'', StrV ''t''), (''created_by'', StrV ''u''), (''priority'', IntV 1)] =
     Inr (note_A\<lparr>id' := None\<rparr>) \<and>
   (\<exists>m. from_json [(''priority'', IntV 1), (''created_by'', StrV ''u''),
                    (''created_at'', StrV ''t''), (''description'', StrV ''d''),
                    (''title'', StrV ''A'')] = Inr m)"
  using from_json_of_to_json [of note_A "[(''priority'', IntV 1), (''created_by'', StrV ''u''),
                    (''created_at'', StrV ''t''), (''description'', StrV ''d''),
                    (''title'', StrV ''A'')]"]
  by (auto simp: to_json_eq note_A_def id_value_def)

text \<open>
  The claim as stated, that \<^verbatim>\<open>from_json\<close> accepts the output of \<^verbatim>\<open>to_json\<close>, fails for the first
  stored note.
\<close>

theorem from_json_to_json_counterexample:
  "to_json note_A =
     Inr [(''id'', IntV 1), (''title'', StrV ''A''), (''description'', StrV ''d''),
          (''created_at'', StrV ''t''), (''created_by'', StrV ''u''), (''priority'', IntV 1)] \<and>
   from_json [(''id'', IntV 1), (''title'', StrV ''A''), (''description'', StrV ''d''),
              (''created_at'', StrV ''t''), (''created_by'', StrV ''u''), (''priority'', IntV 1)] =
     Inl TypeError"
  by (simp add: to_json_eq from_json_def init_parameters_def note_A_def id_value_def)

subsection \<open>C9: updating a note that does not exist\<close>




subsection \<open>C10: the fields of the response bodies\<close>



end
